theory Spec2Isabelle
  imports Main "HOL-Library.Word" "HOL-Library.Monad_Syntax"
begin

unbundle bit_operations_syntax

section \<open>Machine types and Go slices\<close>

text \<open>
  The Go sources compute on \<open>uint8\<close>, \<open>uint32\<close> and \<open>uint64\<close>; these are words, so that
  \<open>+\<close> and \<open>-\<close> wrap around as in Go.  Lengths (\<open>int\<close> in Go: \<open>buflen\<close>, \<open>nx\<close>,
  \<open>hashSize\<close>, \<open>len(p)\<close>) and the bit length \<open>datalen\<close> (\<open>uint64\<close>) are natural numbers:
  a slice has fewer than \<open>2^61\<close> elements, so \<open>uint64(len(p)) * 8\<close> never wraps.

  A run-time panic of Go (a slice or index expression out of range) is the value \<open>None\<close>.
  The explicit \<open>panic\<close> of \<open>setSalt\<close> is the error value \<open>InvalidSaltLength\<close>.
\<close>

type_synonym u8 = "8 word"
type_synonym u32 = "32 word"
type_synonym u64 = "64 word"

datatype error = InvalidSaltLength

text \<open>\<open>s[:hi]\<close> and \<open>s[lo:]\<close> on a slice whose capacity is its length.\<close>

definition slice_to :: "'a list \<Rightarrow> nat \<Rightarrow> 'a list option" where
  "slice_to s hi = (if hi \<le> length s then Some (take hi s) else None)"

definition slice_from :: "'a list \<Rightarrow> nat \<Rightarrow> 'a list option" where
  "slice_from s lo = (if lo \<le> length s then Some (drop lo s) else None)"

text \<open>
  Go's builtin \<open>copy(dst, src)\<close> copies \<open>min(len(dst), len(src))\<close> elements; the value is
  the content of \<open>dst\<close> afterwards.
\<close>

definition copy :: "'a list \<Rightarrow> 'a list \<Rightarrow> 'a list" where
  "copy dst src = take (length dst) src @ drop (length src) dst"

section \<open>Tables\<close>

definition BlockSize :: nat where
  "BlockSize = 64"

definition sigma :: "nat list list" where
  "sigma =
    [[0, 1, 2, 3, 4, 5, 6, 7, 8, 9, 10, 11, 12, 13, 14, 15],
     [14, 10, 4, 8, 9, 15, 13, 6, 1, 12, 0, 2, 11, 7, 5, 3],
     [11, 8, 12, 0, 5, 2, 15, 13, 10, 14, 3, 6, 7, 1, 9, 4],
     [7, 9, 3, 1, 13, 12, 11, 14, 2, 6, 5, 10, 4, 0, 15, 8],
     [9, 0, 5, 7, 2, 4, 10, 15, 14, 1, 11, 12, 6, 8, 3, 13],
     [2, 12, 6, 10, 0, 11, 8, 3, 4, 13, 7, 5, 15, 14, 1, 9],
     [12, 5, 1, 15, 14, 13, 4, 10, 0, 7, 6, 3, 9, 2, 8, 11],
     [13, 11, 7, 14, 12, 1, 3, 9, 5, 0, 15, 4, 8, 6, 2, 10],
     [6, 15, 14, 9, 11, 3, 0, 8, 12, 2, 13, 7, 1, 4, 10, 5],
     [10, 2, 8, 4, 7, 6, 1, 5, 15, 11, 9, 14, 3, 12, 13, 0],
     [0, 1, 2, 3, 4, 5, 6, 7, 8, 9, 10, 11, 12, 13, 14, 15],
     [14, 10, 4, 8, 9, 15, 13, 6, 1, 12, 0, 2, 11, 7, 5, 3],
     [11, 8, 12, 0, 5, 2, 15, 13, 10, 14, 3, 6, 7, 1, 9, 4],
     [7, 9, 3, 1, 13, 12, 11, 14, 2, 6, 5, 10, 4, 0, 15, 8]]"

definition cst :: "u32 list" where
  "cst =
    [0x243F6A88, 0x85A308D3, 0x13198A2E, 0x03707344,
     0xA4093822, 0x299F31D0, 0x082EFA98, 0xEC4E6C89,
     0x452821E6, 0x38D01377, 0xBE5466CF, 0x34E90C6C,
     0xC0AC29B7, 0xC97C50DD, 0x3F84D5B5, 0xB5470917]"

definition iv256 :: "u32 list" where
  "iv256 =
    [0x6A09E667, 0xBB67AE85, 0x3C6EF372, 0xA54FF53A,
     0x510E527F, 0x9B05688C, 0x1F83D9AB, 0x5BE0CD19]"

definition iv224 :: "u32 list" where
  "iv224 =
    [0xC1059ED8, 0x367CD507, 0x3070DD17, 0xF70E5939,
     0xFFC00B31, 0x68581511, 0x64F98FA7, 0xBEFA4FA4]"

section \<open>The compression function\<close>

text \<open>
  Both revisions of \<open>_Block\<close> contain the same text: the sixteen message words are read
  big-endian from the block, sixteen local variables \<open>v0 .. v15\<close> are initialised, fourteen
  rounds of eight unrolled groups of assignments follow, and the chain value is fed forward.
  Each group is the same eight assignments on four of the variables, with the two table
  entries \<open>si[e]\<close> and \<open>si[e+1]\<close>:
  \<^verbatim>\<open>
    v0 += (m[si[0]] ^ cst[si[0+1]]) + v4
    v12 = (v12^v0)<<(32-16) | (v12^v0)>>16
    v8 += v12
    v4 = (v4^v8)<<(32-12) | (v4^v8)>>12
    v0 += (m[si[0+1]] ^ cst[si[0]]) + v4
    v12 = (v12^v0)<<(32-8) | (v12^v0)>>8
    v8 += v12
    v4 = (v4^v8)<<(32-7) | (v4^v8)>>7
  \<close>
  \<open>G\<close> is one group, \<open>round\<close> the eight groups in the order of the source.
\<close>

definition rot :: "u32 \<Rightarrow> nat \<Rightarrow> u32" where
  "rot x n = push_bit (32 - n) x OR drop_bit n x"

definition u8to32 :: "u8 list \<Rightarrow> nat \<Rightarrow> u32" where
  "u8to32 p j =
     push_bit 24 (ucast (p ! j)) OR push_bit 16 (ucast (p ! (j + 1))) OR
     push_bit 8 (ucast (p ! (j + 2))) OR ucast (p ! (j + 3))"

definition G :: "u32 list \<Rightarrow> nat list \<Rightarrow> nat \<Rightarrow> u32 \<times> u32 \<times> u32 \<times> u32 \<Rightarrow> u32 \<times> u32 \<times> u32 \<times> u32" where
  "G m si e = (\<lambda>(a, b, c, d).
     let a = a + ((m ! (si ! e) XOR cst ! (si ! (e + 1))) + b);
         d = rot (d XOR a) 16;
         c = c + d;
         b = rot (b XOR c) 12;
         a = a + ((m ! (si ! (e + 1)) XOR cst ! (si ! e)) + b);
         d = rot (d XOR a) 8;
         c = c + d;
         b = rot (b XOR c) 7
     in (a, b, c, d))"

type_synonym vstate =
  "u32 \<times> u32 \<times> u32 \<times> u32 \<times> u32 \<times> u32 \<times> u32 \<times> u32 \<times>
   u32 \<times> u32 \<times> u32 \<times> u32 \<times> u32 \<times> u32 \<times> u32 \<times> u32"

definition round :: "u32 list \<Rightarrow> nat list \<Rightarrow> vstate \<Rightarrow> vstate" where
  "round m si = (\<lambda>(v0, v1, v2, v3, v4, v5, v6, v7, v8, v9, v10, v11, v12, v13, v14, v15).
     let (v0, v4, v8, v12) = G m si 0 (v0, v4, v8, v12);
         (v1, v5, v9, v13) = G m si 2 (v1, v5, v9, v13);
         (v2, v6, v10, v14) = G m si 4 (v2, v6, v10, v14);
         (v3, v7, v11, v15) = G m si 6 (v3, v7, v11, v15);
         (v3, v4, v9, v14) = G m si 14 (v3, v4, v9, v14);
         (v2, v7, v8, v13) = G m si 12 (v2, v7, v8, v13);
         (v0, v5, v10, v15) = G m si 8 (v0, v5, v10, v15);
         (v1, v6, v11, v12) = G m si 10 (v1, v6, v11, v12)
     in (v0, v1, v2, v3, v4, v5, v6, v7, v8, v9, v10, v11, v12, v13, v14, v15))"

text \<open>\<open>for i := 0; i < 14; i++ { si := &sigma[i]; ... }\<close>: one round per row of the table.\<close>

fun rounds :: "u32 list \<Rightarrow> nat list list \<Rightarrow> vstate \<Rightarrow> vstate" where
  "rounds m [] v = v"
| "rounds m (si # sis) v = rounds m sis (round m si v)"

definition feed_forward :: "u32 list \<Rightarrow> u32 list \<Rightarrow> vstate \<Rightarrow> u32 list" where
  "feed_forward hh s = (\<lambda>(v0, v1, v2, v3, v4, v5, v6, v7, v8, v9, v10, v11, v12, v13, v14, v15).
    [hh ! 0 XOR (v0 XOR v8 XOR s ! 0),
     hh ! 1 XOR (v1 XOR v9 XOR s ! 1),
     hh ! 2 XOR (v2 XOR v10 XOR s ! 2),
     hh ! 3 XOR (v3 XOR v11 XOR s ! 3),
     hh ! 4 XOR (v4 XOR v12 XOR s ! 0),
     hh ! 5 XOR (v5 XOR v13 XOR s ! 1),
     hh ! 6 XOR (v6 XOR v14 XOR s ! 2),
     hh ! 7 XOR (v7 XOR v15 XOR s ! 3)])"

definition init_v :: "u32 list \<Rightarrow> u32 list \<Rightarrow> u32 \<Rightarrow> u32 \<Rightarrow> bool \<Rightarrow> vstate" where
  "init_v hh s t0 t1 nt =
    (hh ! 0, hh ! 1, hh ! 2, hh ! 3, hh ! 4, hh ! 5, hh ! 6, hh ! 7,
     s ! 0 XOR cst ! 0, s ! 1 XOR cst ! 1, s ! 2 XOR cst ! 2, s ! 3 XOR cst ! 3,
     (if \<not> nt then cst ! 4 XOR t0 else cst ! 4),
     (if \<not> nt then cst ! 5 XOR t0 else cst ! 5),
     (if \<not> nt then cst ! 6 XOR t1 else cst ! 6),
     (if \<not> nt then cst ! 7 XOR t1 else cst ! 7))"

definition compress :: "u32 list \<Rightarrow> u32 list \<Rightarrow> u32 \<Rightarrow> u32 \<Rightarrow> bool \<Rightarrow> u8 list \<Rightarrow> u32 list" where
  "compress hh s t0 t1 nt p =
     feed_forward hh s
       (rounds (map (u8to32 p) [0, 4, 8, 12, 16, 20, 24, 28, 32, 36, 40, 44, 48, 52, 56, 60])
          sigma (init_v hh s t0 t1 nt))"


section \<open>The revision with a two-word counter\<close>

text \<open>
  The record is the struct \<open>digest\<close>; the arrays \<open>h\<close>, \<open>salt\<close>, \<open>t\<close> and \<open>buf\<close> are lists of
  8, 4, 2 and 64 elements (see \<open>wf\<close> below).  \<open>buflen\<close> counts bits.
\<close>

record digest =
  hashSize :: nat
  h :: "u32 list"
  salt :: "u32 list"
  t :: "u32 list"
  nullt :: bool
  buf :: "u8 list"
  buflen :: nat

text \<open>\<open>_Block\<close> reads \<open>p[0] .. p[63]\<close>: a shorter slice panics.\<close>

definition Block :: "digest \<Rightarrow> u8 list \<Rightarrow> digest option" where
  "Block d p =
     (if length p < 64 then None
      else Some (d\<lparr>h := compress (h d) (salt d) (t d ! 0) (t d ! 1) (nullt d) p\<rparr>))"

definition Reset :: "digest \<Rightarrow> digest" where
  "Reset d =
     (let d = (if hashSize d = 224 then d\<lparr>h := iv224\<rparr> else d\<lparr>h := iv256\<rparr>);
          d = d\<lparr>t := (t d)[0 := 0]\<rparr>;
          d = d\<lparr>t := (t d)[1 := 0]\<rparr>;
          d = d\<lparr>nullt := False\<rparr>
      in d\<lparr>buflen := 0\<rparr>)"

definition Size :: "digest \<Rightarrow> nat" where
  "Size d = hashSize d div 8"

text \<open>\<open>d.t[0] += 512; if d.t[0] == 0 { d.t[1]++ }\<close>, which \<open>update\<close> has twice.\<close>

definition count512 :: "digest \<Rightarrow> digest" where
  "count512 d =
     (let d = d\<lparr>t := (t d)[0 := t d ! 0 + 512]\<rparr>
      in if t d ! 0 = 0 then d\<lparr>t := (t d)[1 := t d ! 1 + 1]\<rparr> else d)"

text \<open>
  \<open>update\<close> in three parts: the first \<open>if\<close> (which completes the buffered block), the
  \<open>for\<close> loop over whole blocks of \<open>data\<close>, and the last \<open>if\<close> (which buffers the rest).
  \<open>int(datalen>>3)&0x3F\<close> is \<open>(datalen div 8) mod 64\<close>.
\<close>

definition update_fill ::
  "digest \<Rightarrow> u8 list \<Rightarrow> nat \<Rightarrow> nat \<Rightarrow> (digest \<times> u8 list \<times> nat \<times> nat) option" where
  "update_fill d data datalen left =
     (let fill = 64 - left in
      if left \<noteq> 0 \<and> (datalen div 8) mod 64 \<ge> fill then do {
        dst \<leftarrow> slice_from (buf d) left;
        src \<leftarrow> slice_to data fill;
        let d = count512 (d\<lparr>buf := take left (buf d) @ copy dst src\<rparr>);
        d \<leftarrow> Block d (buf d);
        data \<leftarrow> slice_from data fill;
        Some (d, data, datalen - fill * 8, 0)
      } else Some (d, data, datalen, left))"

function update_loop :: "digest \<Rightarrow> u8 list \<Rightarrow> nat \<Rightarrow> (digest \<times> u8 list \<times> nat) option" where
  "update_loop d data datalen =
     (if datalen \<ge> 512 then do {
        blk \<leftarrow> slice_to data 64;
        d \<leftarrow> Block (count512 d) blk;
        data \<leftarrow> slice_from data 64;
        update_loop d data (datalen - 512)
      } else Some (d, data, datalen))"
  by pat_completeness auto
termination
  by (relation "measure (\<lambda>(d, data, datalen). datalen)") auto

declare update_loop.simps [simp del]

definition update_tail :: "digest \<Rightarrow> u8 list \<Rightarrow> nat \<Rightarrow> nat \<Rightarrow> digest option" where
  "update_tail d data datalen left =
     (if datalen > 0 then do {
        dst \<leftarrow> slice_from (buf d) left;
        Some (d\<lparr>buf := take left (buf d) @ copy dst data, buflen := left * 8 + datalen\<rparr>)
      } else Some (d\<lparr>buflen := 0\<rparr>))"

definition update :: "digest \<Rightarrow> u8 list \<Rightarrow> nat \<Rightarrow> digest option" where
  "update d data datalen = do {
     (d, data, datalen, left) \<leftarrow> update_fill d data datalen (buflen d div 8);
     (d, data, datalen) \<leftarrow> update_loop d data datalen;
     update_tail d data datalen left
   }"

text \<open>
  \<open>Write\<close> returns \<open>nn = len(p)\<close> and \<open>err = nil\<close> on its only return path; the value here
  is the state after the call, or \<open>None\<close> if \<open>update\<close> panics.
\<close>

definition Write :: "digest \<Rightarrow> u8 list \<Rightarrow> digest option" where
  "Write d p = update d p (length p * 8)"

definition u32to8 :: "u32 \<Rightarrow> u8 list" where
  "u32to8 v = [ucast (drop_bit 24 v), ucast (drop_bit 16 v), ucast (drop_bit 8 v), ucast v]"

definition sub_t0 :: "digest \<Rightarrow> u32 \<Rightarrow> digest" where
  "sub_t0 d x = d\<lparr>t := (t d)[0 := t d ! 0 - x]\<rparr>"

definition pad :: "u8 list" where
  "pad = 0x80 # replicate 63 0"

text \<open>
  \<open>Sum\<close> works on the copy \<open>d := *d0\<close> and never assigns through \<open>d0\<close>.  Its value is the
  pair of the caller's state \<open>*d0\<close> after the call and the slice returned,
  \<open>append(in, out...)\<close>, where \<open>out\<close> has \<open>d.Size()\<close> bytes of which the loop fills four for
  each word of \<open>d.h[:d.hashSize>>5]\<close>.
\<close>

definition Sum :: "digest \<Rightarrow> u8 list \<Rightarrow> (digest \<times> u8 list) option" where
  "Sum d0 inb =
     (let d = d0;
          ubuflen = (of_nat (buflen d) :: u32);
          lo = t d ! 0 + ubuflen;
          hi = (if lo < ubuflen then t d ! 1 + 1 else t d ! 1);
          msglen = u32to8 hi @ u32to8 lo
      in do {
        d \<leftarrow> (if buflen d = 440 then
                (if hashSize d = 224 then update (sub_t0 d 8) [0x80] 8
                 else update (sub_t0 d 8) [0x81] 8)
              else do {
                d \<leftarrow> (if buflen d < 440 then
                        update (sub_t0 (if buflen d = 0 then d\<lparr>nullt := True\<rparr> else d) (440 - ubuflen))
                          pad (440 - buflen d)
                      else do {
                        d \<leftarrow> update (sub_t0 d (512 - ubuflen)) pad (512 - buflen d);
                        d \<leftarrow> update (sub_t0 d 440) (tl pad) 440;
                        Some (d\<lparr>nullt := True\<rparr>)
                      });
                d \<leftarrow> (if hashSize d = 224 then update d [0x00] 8 else update d [0x01] 8);
                Some (sub_t0 d 8)
              });
        d \<leftarrow> update (sub_t0 d 64) msglen 64;
        hs \<leftarrow> slice_to (h d) (hashSize d div 32);
        Some (d0, inb @ concat (map u32to8 hs) @ replicate (Size d - 4 * length hs) 0)
      })"

definition setSalt :: "digest \<Rightarrow> u8 list \<Rightarrow> error + digest" where
  "setSalt d s =
     (if length s \<noteq> 16 then Inl InvalidSaltLength
      else Inr (d\<lparr>salt := (salt d)[0 := u8to32 s 0, 1 := u8to32 s 4,
                                      2 := u8to32 s 8, 3 := u8to32 s 12]\<rparr>))"

text \<open>\<open>new(digest)\<close> is the zero value of the struct.\<close>

definition zero_digest :: digest where
  "zero_digest =
     \<lparr>hashSize = 0, h = replicate 8 0, salt = replicate 4 0, t = replicate 2 0,
      nullt = False, buf = replicate 64 0, buflen = 0\<rparr>"

definition newDigest :: "nat \<Rightarrow> digest" where
  "newDigest bitSize = Reset (zero_digest\<lparr>hashSize := bitSize\<rparr>)"

definition New :: digest where
  "New = newDigest 256"

definition New224 :: digest where
  "New224 = newDigest 224"

definition NewSalt :: "u8 list \<Rightarrow> error + digest" where
  "NewSalt s = setSalt (newDigest 256) s"

definition New224Salt :: "u8 list \<Rightarrow> error + digest" where
  "New224Salt s = setSalt (newDigest 224) s"


section \<open>Definitions for evaluating on numerals\<close>

text \<open>
  Word numerals are not reduced modulo \<open>2^32\<close> by the simplifier.  For the known-answer tests
  every word is written \<open>W n\<close> for a natural number \<open>n\<close>, and every operation of the
  compression function is computed on \<open>n\<close>.  The first branch of each \<open>if\<close> is the one
  taken on reduced numbers.  \<open>G1 .. G8\<close>, \<open>round_d\<close> and \<open>round_o\<close> are \<open>G\<close> and \<open>round\<close>
  without bound variables: each equation fires once its arguments are numerals.
\<close>

definition W :: "nat \<Rightarrow> u32" where "W n = of_nat n"
definition W8 :: "nat \<Rightarrow> u8" where "W8 n = of_nat n"

definition norm32 :: "nat \<Rightarrow> nat" where
  "norm32 x = (if x < 4294967296 then x else if x < 8589934592 then x - 4294967296 else x mod 4294967296)"

definition rotn :: "nat \<Rightarrow> nat \<Rightarrow> nat" where
  "rotn a n = (if a < 4294967296 \<and> n \<le> 32
     then push_bit (32 - n) (a - push_bit n (drop_bit n a)) + drop_bit n a
     else (a * 2 ^ (32 - n)) mod 4294967296 OR (a mod 4294967296) div 2 ^ n)"

definition be32 :: "nat \<Rightarrow> nat \<Rightarrow> nat \<Rightarrow> nat \<Rightarrow> nat" where
  "be32 a b c d = (if a < 256 \<and> b < 256 \<and> c < 256 \<and> d < 256 then push_bit 24 a + (push_bit 16 b + (push_bit 8 c + d))
     else ((a mod 256) * 2 ^ 24) mod 4294967296 OR (((b mod 256) * 2 ^ 16) mod 4294967296 OR (((c mod 256) * 2 ^ 8) mod 4294967296 OR d mod 256)))"

definition bytesn :: "nat \<Rightarrow> nat list" where
  "bytesn a =
     (if a < 4294967296 then [drop_bit 24 a, drop_bit 16 a, drop_bit 8 a, a]
      else [drop_bit 24 (a mod 4294967296), drop_bit 16 (a mod 4294967296),
            drop_bit 8 (a mod 4294967296), a mod 4294967296])"

definition G8 :: "u32 \<Rightarrow> u32 \<Rightarrow> u32 \<Rightarrow> u32 \<Rightarrow> u32 \<times> u32 \<times> u32 \<times> u32" where
  "G8 a b c d = (a, rot (b XOR c) 7, c, d)"
definition G7 :: "u32 \<Rightarrow> u32 \<Rightarrow> u32 \<Rightarrow> u32 \<Rightarrow> u32 \<times> u32 \<times> u32 \<times> u32" where
  "G7 a b c d = G8 a b (c + d) d"
definition G6 :: "u32 \<Rightarrow> u32 \<Rightarrow> u32 \<Rightarrow> u32 \<Rightarrow> u32 \<times> u32 \<times> u32 \<times> u32" where
  "G6 a b c d = G7 a b c (rot (d XOR a) 8)"
definition G5 :: "u32 \<Rightarrow> u32 \<Rightarrow> u32 \<Rightarrow> u32 \<Rightarrow> u32 \<Rightarrow> u32 \<times> u32 \<times> u32 \<times> u32" where
  "G5 y a b c d = G6 (a + (y + b)) b c d"
definition G4 :: "u32 \<Rightarrow> u32 \<Rightarrow> u32 \<Rightarrow> u32 \<Rightarrow> u32 \<Rightarrow> u32 \<times> u32 \<times> u32 \<times> u32" where
  "G4 y a b c d = G5 y a (rot (b XOR c) 12) c d"
definition G3 :: "u32 \<Rightarrow> u32 \<Rightarrow> u32 \<Rightarrow> u32 \<Rightarrow> u32 \<Rightarrow> u32 \<times> u32 \<times> u32 \<times> u32" where
  "G3 y a b c d = G4 y a b (c + d) d"
definition G2 :: "u32 \<Rightarrow> u32 \<Rightarrow> u32 \<Rightarrow> u32 \<Rightarrow> u32 \<Rightarrow> u32 \<times> u32 \<times> u32 \<times> u32" where
  "G2 y a b c d = G3 y a b c (rot (d XOR a) 16)"
definition G1 :: "u32 \<Rightarrow> u32 \<Rightarrow> u32 \<Rightarrow> u32 \<Rightarrow> u32 \<Rightarrow> u32 \<Rightarrow> u32 \<times> u32 \<times> u32 \<times> u32" where
  "G1 x y a b c d = G2 y (a + (x + b)) b c d"

type_synonym quad = "u32 \<times> u32 \<times> u32 \<times> u32"

definition round_o :: "quad \<Rightarrow> quad \<Rightarrow> quad \<Rightarrow> quad \<Rightarrow> vstate" where
  "round_o = (\<lambda>(v3, v4, v9, v14) (v2, v7, v8, v13) (v0, v5, v10, v15) (v1, v6, v11, v12).
     (v0, v1, v2, v3, v4, v5, v6, v7, v8, v9, v10, v11, v12, v13, v14, v15))"

definition round_d :: "u32 list \<Rightarrow> nat list \<Rightarrow> quad \<Rightarrow> quad \<Rightarrow> quad \<Rightarrow> quad \<Rightarrow> vstate" where
  "round_d m si = (\<lambda>(v0, v4, v8, v12) (v1, v5, v9, v13) (v2, v6, v10, v14) (v3, v7, v11, v15).
     round_o (G m si 14 (v3, v4, v9, v14)) (G m si 12 (v2, v7, v8, v13))
             (G m si 8 (v0, v5, v10, v15)) (G m si 10 (v1, v6, v11, v12)))"

section \<open>Helpers for stating properties\<close>

text \<open>The bytes of an ASCII string literal, as \<open>[]byte("...")\<close> gives them.\<close>

definition ascii :: "string \<Rightarrow> u8 list" where
  "ascii s = map (\<lambda>c. of_nat (of_char c)) s"

text \<open>\<open>h.Write(m)\<close> followed by \<open>h.Sum(nil)\<close>, as the tests of the repository call them.\<close>

definition write_sum :: "digest \<Rightarrow> u8 list \<Rightarrow> u8 list option" where
  "write_sum d m = do { d \<leftarrow> Write d m; (d0, out) \<leftarrow> Sum d []; Some out }"

(*LEMMAS*)
section \<open>Evaluation lemmas\<close>

lemma W_num: "(numeral k :: u32) = W (numeral k)" "(0 :: u32) = W 0" "(1 :: u32) = W 1"
  unfolding W_def by simp_all

lemma W8_num: "(numeral k :: u8) = W8 (numeral k)" "(0 :: u8) = W8 0" "(1 :: u8) = W8 1"
  unfolding W8_def by simp_all

lemma W_mod: "W (a mod 4294967296) = W a"
  unfolding W_def by (simp add: word_of_nat_eq_iff take_bit_eq_mod)

lemma W_eq: "(W a = W b) = (a mod 4294967296 = b mod 4294967296)"
  unfolding W_def by (simp add: word_of_nat_eq_iff take_bit_eq_mod)

lemma W_norm32: "W (norm32 x) = W x"
proof -
  have "x < 8589934592 \<Longrightarrow> \<not> x < 4294967296 \<Longrightarrow> (x - 4294967296) mod 4294967296 = x mod 4294967296"
    by (metis le_mod_geq not_less)
  then show ?thesis
    by (simp add: norm32_def W_eq)
qed

lemma W_add: "W a + W b = W (norm32 (a + b))"
  unfolding W_norm32 by (simp add: W_def)

lemma W_xor: "W a XOR W b = W (a XOR b)"
  unfolding W_def by (simp add: of_nat_xor_eq)

lemma W_or: "W a OR W b = W (a OR b)"
  unfolding W_def by (simp add: of_nat_or_eq)

lemma W_push: "push_bit n (W a) = W ((a * 2 ^ n) mod 4294967296)"
  unfolding W_mod by (simp add: W_def push_bit_eq_mult)

lemma W_drop: "drop_bit n (W a) = W ((a mod 4294967296) div 2 ^ n)"
proof -
  have "unat (drop_bit n (of_nat a :: u32)) = (a mod 4294967296) div 2 ^ n"
    unfolding unat_drop_bit_eq unat_of_nat by (simp add: drop_bit_eq_div take_bit_eq_mod)
  then have "of_nat (unat (drop_bit n (of_nat a :: u32))) = (of_nat ((a mod 4294967296) div 2 ^ n) :: u32)"
    by simp
  then show ?thesis
    unfolding W_def by simp
qed

lemma W_ucast8: "(ucast (W8 a) :: u32) = W (a mod 256)"
  unfolding W_def W8_def by (simp add: unsigned_of_nat take_bit_eq_mod)

lemma push_add_or:
  assumes "y < 2 ^ n"
  shows "push_bit n x + y = push_bit n x OR (y::nat)"
proof (rule disjunctive_add)
  fix k
  from assms have "take_bit n y = y"
    by (simp add: take_bit_nat_eq_self)
  then have "bit y k \<Longrightarrow> k < n"
    by (metis bit_take_bit_iff)
  then show "\<not> bit (push_bit n x) k \<or> \<not> bit y k"
    by (auto simp: bit_push_bit_iff)
qed

lemma low_bits: "a - push_bit n (drop_bit n a) = (a::nat) mod 2 ^ n"
proof -
  have "a div 2 ^ n * 2 ^ n + a mod 2 ^ n = a"
    by (rule div_mult_mod_eq)
  then have "a - a div 2 ^ n * 2 ^ n = a mod 2 ^ n"
    by arith
  then show ?thesis
    by (simp add: push_bit_eq_mult drop_bit_eq_div)
qed

lemma rot_fast:
  assumes "(a::nat) < 4294967296" "n \<le> 32"
  shows "(a * 2 ^ (32 - n)) mod 4294967296 OR (a mod 4294967296) div 2 ^ n =
         push_bit (32 - n) (a - push_bit n (drop_bit n a)) + drop_bit n a"
proof -
  have p: "(4294967296::nat) = 2 ^ (32 - n) * 2 ^ n"
    using assms(2) by (simp flip: power_add)
  have "(a * 2 ^ (32 - n)) mod 4294967296 = (2 ^ (32 - n) * a) mod (2 ^ (32 - n) * 2 ^ n)"
    by (simp add: p mult.commute)
  also have "\<dots> = 2 ^ (32 - n) * (a mod 2 ^ n)"
    by (simp only: mult_mod_right)
  finally have l: "(a * 2 ^ (32 - n)) mod 4294967296 = push_bit (32 - n) (a mod 2 ^ n)"
    by (simp add: push_bit_eq_mult mult.commute)
  have "a < 2 ^ n * 2 ^ (32 - n)"
    using assms(1) p by (simp add: mult.commute)
  then have "a div 2 ^ n < 2 ^ (32 - n)"
    by (simp add: less_mult_imp_div_less mult.commute)
  then have h: "drop_bit n a < 2 ^ (32 - n)"
    by (simp add: drop_bit_eq_div)
  have "a mod 4294967296 = a"
    using assms(1) by simp
  then show ?thesis
    unfolding l low_bits using push_add_or[OF h] by (simp add: drop_bit_eq_div)
qed

lemma W_rot: "rot (W a) n = W (rotn a n)"
proof (cases "a < 4294967296 \<and> n \<le> 32")
  case True
  then show ?thesis
    unfolding rot_def W_push W_drop W_or rotn_def using rot_fast[of a n] by auto
next
  case False
  then show ?thesis
    unfolding rot_def W_push W_drop W_or rotn_def by auto
qed

lemma be32_fast:
  assumes "(a::nat) < 256" "(b::nat) < 256" "(c::nat) < 256" "(d::nat) < 256"
  shows "((a mod 256) * 2 ^ 24) mod 4294967296 OR (((b mod 256) * 2 ^ 16) mod 4294967296 OR (((c mod 256) * 2 ^ 8) mod 4294967296 OR d mod 256))
         = push_bit 24 a + (push_bit 16 b + (push_bit 8 c + (d::nat)))"
proof -
  have 1: "push_bit 8 c + d = push_bit 8 c OR d"
    using assms by (intro push_add_or) simp
  have "push_bit 8 c + d < 2 ^ 16"
    using assms by (simp add: push_bit_eq_mult)
  then have 2: "push_bit 16 b + (push_bit 8 c + d) = push_bit 16 b OR (push_bit 8 c + d)"
    by (rule push_add_or)
  have "push_bit 16 b + (push_bit 8 c + d) < 2 ^ 24"
    using assms by (simp add: push_bit_eq_mult)
  then have 3: "push_bit 24 a + (push_bit 16 b + (push_bit 8 c + d)) = push_bit 24 a OR (push_bit 16 b + (push_bit 8 c + d))"
    by (rule push_add_or)
  have "(a * 2 ^ 24) mod 4294967296 = a * 2 ^ 24" "(b * 2 ^ 16) mod 4294967296 = b * 2 ^ 16"
       "(c * 2 ^ 8) mod 4294967296 = c * 2 ^ 8"
    using assms by simp_all
  then have "((a mod 256) * 2 ^ 24) mod 4294967296 OR (((b mod 256) * 2 ^ 16) mod 4294967296 OR (((c mod 256) * 2 ^ 8) mod 4294967296 OR d mod 256))
      = push_bit 24 a OR (push_bit 16 b OR (push_bit 8 c OR d))"
    using assms by (simp add: push_bit_eq_mult)
  moreover have "push_bit 24 a + (push_bit 16 b + (push_bit 8 c + d)) = push_bit 24 a OR (push_bit 16 b OR (push_bit 8 c OR d))"
    by (subst 3, subst 2, subst 1) (rule refl)
  ultimately show ?thesis
    by (rule trans[OF _ sym])
qed

lemma W_be32:
  "push_bit 24 (ucast (W8 a)) OR push_bit 16 (ucast (W8 b)) OR push_bit 8 (ucast (W8 c)) OR ucast (W8 d)
     = W (be32 a b c d)"
proof -
  have "push_bit 24 (ucast (W8 a)) OR push_bit 16 (ucast (W8 b)) OR push_bit 8 (ucast (W8 c)) OR ucast (W8 d)
     = W (((a mod 256) * 2 ^ 24) mod 4294967296 OR (((b mod 256) * 2 ^ 16) mod 4294967296 OR (((c mod 256) * 2 ^ 8) mod 4294967296 OR d mod 256)))"
    unfolding W_ucast8 W_push W_or by (simp add: or.assoc)
  then show ?thesis
    using be32_fast[of a b c d] by (simp add: be32_def)
qed

lemma W8_eq: "(W8 a = W8 b) = (a mod 256 = b mod 256)"
  unfolding W8_def by (simp add: word_of_nat_eq_iff take_bit_eq_mod)

lemma ucast_W: "(ucast (W a) :: u8) = W8 a"
  unfolding W_def W8_def by (simp add: unsigned_of_nat word_of_nat_eq_iff min_def)

lemma W_u32to8: "u32to8 (W a) = map W8 (bytesn a)"
proof -
  have "u32to8 (W a) = map W8 [drop_bit 24 (a mod 4294967296), drop_bit 16 (a mod 4294967296),
            drop_bit 8 (a mod 4294967296), a mod 4294967296]"
    unfolding u32to8_def W_drop ucast_W by (simp add: drop_bit_eq_div W8_eq mod_mod_cancel)
  then show ?thesis
    by (simp add: bytesn_def)
qed

lemma G_eval: "G m si e (a, b, c, d) =
   G1 (m ! (si ! e) XOR cst ! (si ! (e + 1))) (m ! (si ! (e + 1)) XOR cst ! (si ! e)) a b c d"
  by (simp only: G_def G1_def G2_def G3_def G4_def G5_def G6_def G7_def G8_def Let_def prod.case)

lemma round_o_eval:
  "round_o (v3, v4, v9, v14) (v2, v7, v8, v13) (v0, v5, v10, v15) (v1, v6, v11, v12) =
     (v0, v1, v2, v3, v4, v5, v6, v7, v8, v9, v10, v11, v12, v13, v14, v15)"
  by (simp only: round_o_def prod.case)

lemma round_d_eval:
  "round_d m si (v0, v4, v8, v12) (v1, v5, v9, v13) (v2, v6, v10, v14) (v3, v7, v11, v15) =
     round_o (G m si 14 (v3, v4, v9, v14)) (G m si 12 (v2, v7, v8, v13))
             (G m si 8 (v0, v5, v10, v15)) (G m si 10 (v1, v6, v11, v12))"
  by (simp only: round_d_def prod.case)

lemma round_eval:
  "round m si (v0, v1, v2, v3, v4, v5, v6, v7, v8, v9, v10, v11, v12, v13, v14, v15) =
     round_d m si (G m si 0 (v0, v4, v8, v12)) (G m si 2 (v1, v5, v9, v13))
                  (G m si 4 (v2, v6, v10, v14)) (G m si 6 (v3, v7, v11, v15))"
proof -
  obtain a0 a4 a8 a12 where a: "G m si 0 (v0, v4, v8, v12) = (a0, a4, a8, a12)"
    by (metis prod_cases4)
  obtain a1 a5 a9 a13 where b: "G m si 2 (v1, v5, v9, v13) = (a1, a5, a9, a13)"
    by (metis prod_cases4)
  obtain a2 a6 a10 a14 where c: "G m si 4 (v2, v6, v10, v14) = (a2, a6, a10, a14)"
    by (metis prod_cases4)
  obtain a3 a7 a11 a15 where d: "G m si 6 (v3, v7, v11, v15) = (a3, a7, a11, a15)"
    by (metis prod_cases4)
  obtain b3 b4 b9 b14 where e: "G m si 14 (a3, a4, a9, a14) = (b3, b4, b9, b14)"
    by (metis prod_cases4)
  obtain b2 b7 b8 b13 where f: "G m si 12 (a2, a7, a8, a13) = (b2, b7, b8, b13)"
    by (metis prod_cases4)
  obtain b0 b5 b10 b15 where g: "G m si 8 (a0, a5, a10, a15) = (b0, b5, b10, b15)"
    by (metis prod_cases4)
  obtain b1 b6 b11 b12 where h: "G m si 10 (a1, a6, a11, a12) = (b1, b6, b11, b12)"
    by (metis prod_cases4)
  show ?thesis
    by (simp only: round_def round_d_eval round_o_eval a b c d e f g h Let_def prod.case)
qed

lemma feed_forward_eval:
  "feed_forward hh s (v0, v1, v2, v3, v4, v5, v6, v7, v8, v9, v10, v11, v12, v13, v14, v15) =
    [hh ! 0 XOR (v0 XOR v8 XOR s ! 0),
     hh ! 1 XOR (v1 XOR v9 XOR s ! 1),
     hh ! 2 XOR (v2 XOR v10 XOR s ! 2),
     hh ! 3 XOR (v3 XOR v11 XOR s ! 3),
     hh ! 4 XOR (v4 XOR v12 XOR s ! 0),
     hh ! 5 XOR (v5 XOR v13 XOR s ! 1),
     hh ! 6 XOR (v6 XOR v14 XOR s ! 2),
     hh ! 7 XOR (v7 XOR v15 XOR s ! 3)]"
  by (simp only: feed_forward_def prod.case)

lemma length_compress [simp]: "length (compress hh s t0 t1 nt p) = 8"
proof -
  obtain v0 v1 v2 v3 v4 v5 v6 v7 v8 v9 v10 v11 v12 v13 v14 v15 where
    "rounds (map (u8to32 p) [0, 4, 8, 12, 16, 20, 24, 28, 32, 36, 40, 44, 48, 52, 56, 60])
          sigma (init_v hh s t0 t1 nt) = (v0, v1, v2, v3, v4, v5, v6, v7, v8, v9, v10, v11, v12, v13, v14, v15)"
    using prod_cases4 by (metis (no_types))
  then show ?thesis
    by (simp add: compress_def feed_forward_eval)
qed

lemma length_u32to8 [simp]: "length (u32to8 v) = 4"
  by (simp add: u32to8_def)

lemma replicate_numeral: "replicate (numeral k) x = x # replicate (pred_numeral k) x"
  by (simp add: numeral_eq_Suc)

lemmas eval_compress =
  compress_def init_v_def feed_forward_eval rounds.simps round_eval round_d_eval round_o_eval
  G_eval G1_def G2_def G3_def G4_def G5_def G6_def G7_def G8_def
  sigma_def cst_def iv256_def iv224_def u8to32_def
  W_num W8_num W_add W_xor W_rot W_be32 W_eq W8_eq W_u32to8 norm32_def rotn_def be32_def bytesn_def
  replicate_numeral


lemmas eval_stream =
  New_def New224_def newDigest_def zero_digest_def Reset_def Write_def update_def update_fill_def
  update_tail_def update_loop.simps Sum_def sub_t0_def count512_def Block_def slice_to_def
  slice_from_def copy_def pad_def Size_def Let_def write_sum_def ascii_def NewSalt_def
  New224Salt_def setSalt_def

section \<open>Known-answer tests\<close>

lemma kat_256_empty:
  "write_sum New [] =
     Some [0x71, 0x6f, 0x6e, 0x86, 0x3f, 0x74, 0x4b, 0x9a, 0xc2, 0x2c, 0x97, 0xec,
        0x7b, 0x76, 0xea, 0x5f, 0x59, 0x08, 0xbc, 0x5b, 0x2f, 0x67, 0xc6, 0x15,
        0x10, 0xbf, 0xc4, 0x75, 0x13, 0x84, 0xea, 0x7a]"
  apply (simp add: eval_stream)
  apply (simp add: eval_compress)
  done

lemma kat_256_BLAKE:
  "write_sum New (ascii ''BLAKE'') =
     Some [0x07, 0x66, 0x3e, 0x00, 0xcf, 0x96, 0xfb, 0xc1, 0x36, 0xcf, 0x7b, 0x1e,
        0xe0, 0x99, 0xc9, 0x53, 0x46, 0xba, 0x39, 0x20, 0x89, 0x3d, 0x18, 0xcc,
        0x88, 0x51, 0xf2, 0x2e, 0xe2, 0xe3, 0x6a, 0xa6]"
  apply (simp add: eval_stream)
  apply (simp add: eval_compress)
  done

lemma kat_256_fox:
  "write_sum New (ascii ''The quick brown fox jumps over the lazy dog'') =
     Some [0x75, 0x76, 0x69, 0x8e, 0xe9, 0xca, 0xd3, 0x01, 0x73, 0x08, 0x06, 0x78,
        0xe5, 0x96, 0x59, 0x16, 0xad, 0xbb, 0x11, 0xcb, 0x52, 0x45, 0xd3, 0x86,
        0xbf, 0x1f, 0xfd, 0xa1, 0xcb, 0x26, 0xc9, 0xd7]"
  apply (simp add: eval_stream)
  apply (simp add: eval_compress)
  done

lemma kat_224_empty:
  "write_sum New224 [] =
     Some [0x7d, 0xc5, 0x31, 0x3b, 0x1c, 0x04, 0x51, 0x2a, 0x17, 0x4b, 0xd6, 0x50,
        0x3b, 0x89, 0x60, 0x7a, 0xec, 0xbe, 0xe0, 0x90, 0x3d, 0x40, 0xa8, 0xa5,
        0x69, 0xc9, 0x4e, 0xed]"
  apply (simp add: eval_stream)
  apply (simp add: eval_compress)
  done

lemma kat_256_salt:
  "(case NewSalt (ascii ''1234567890123456'') of Inl e \<Rightarrow> None | Inr d \<Rightarrow> write_sum d []) =
     Some [0x56, 0x1d, 0x6d, 0x0c, 0xfa, 0x3d, 0x31, 0xd5, 0xee, 0xda, 0xf2, 0xd5,
        0x75, 0xf3, 0x94, 0x25, 0x39, 0xb0, 0x35, 0x22, 0xbe, 0xfc, 0x2a, 0x11,
        0x96, 0xba, 0x0e, 0x51, 0xaf, 0x89, 0x92, 0xa8]"
  apply (simp add: eval_stream)
  apply (simp add: eval_compress)
  done

text \<open>
  C1.  The literal known-answer vectors: a fresh 256-bit instance hashing the empty string,
  \<open>BLAKE\<close> and \<open>The quick brown fox jumps over the lazy dog\<close>, a fresh 224-bit instance
  hashing the empty string, and a 256-bit instance salted with \<open>1234567890123456\<close> hashing the
  empty string return the digests of the specification.
\<close>

theorem known_answer_vectors:
  "write_sum New [] =
     Some [0x71, 0x6f, 0x6e, 0x86, 0x3f, 0x74, 0x4b, 0x9a, 0xc2, 0x2c, 0x97, 0xec,
        0x7b, 0x76, 0xea, 0x5f, 0x59, 0x08, 0xbc, 0x5b, 0x2f, 0x67, 0xc6, 0x15,
        0x10, 0xbf, 0xc4, 0x75, 0x13, 0x84, 0xea, 0x7a] \<and>
   write_sum New (ascii ''BLAKE'') =
     Some [0x07, 0x66, 0x3e, 0x00, 0xcf, 0x96, 0xfb, 0xc1, 0x36, 0xcf, 0x7b, 0x1e,
        0xe0, 0x99, 0xc9, 0x53, 0x46, 0xba, 0x39, 0x20, 0x89, 0x3d, 0x18, 0xcc,
        0x88, 0x51, 0xf2, 0x2e, 0xe2, 0xe3, 0x6a, 0xa6] \<and>
   write_sum New (ascii ''The quick brown fox jumps over the lazy dog'') =
     Some [0x75, 0x76, 0x69, 0x8e, 0xe9, 0xca, 0xd3, 0x01, 0x73, 0x08, 0x06, 0x78,
        0xe5, 0x96, 0x59, 0x16, 0xad, 0xbb, 0x11, 0xcb, 0x52, 0x45, 0xd3, 0x86,
        0xbf, 0x1f, 0xfd, 0xa1, 0xcb, 0x26, 0xc9, 0xd7] \<and>
   write_sum New224 [] =
     Some [0x7d, 0xc5, 0x31, 0x3b, 0x1c, 0x04, 0x51, 0x2a, 0x17, 0x4b, 0xd6, 0x50,
        0x3b, 0x89, 0x60, 0x7a, 0xec, 0xbe, 0xe0, 0x90, 0x3d, 0x40, 0xa8, 0xa5,
        0x69, 0xc9, 0x4e, 0xed] \<and>
   (case NewSalt (ascii ''1234567890123456'') of Inl e \<Rightarrow> None | Inr d \<Rightarrow> write_sum d []) =
     Some [0x56, 0x1d, 0x6d, 0x0c, 0xfa, 0x3d, 0x31, 0xd5, 0xee, 0xda, 0xf2, 0xd5,
        0x75, 0xf3, 0x94, 0x25, 0x39, 0xb0, 0x35, 0x22, 0xbe, 0xfc, 0x2a, 0x11,
        0x96, 0xba, 0x0e, 0x51, 0xaf, 0x89, 0x92, 0xa8]"
  by (intro conjI kat_256_empty kat_256_BLAKE kat_256_fox kat_224_empty kat_256_salt)

end
